theory Spec2Isabelle
  imports Complex_Main "HOL-Library.Multiset" "HOL-Library.Product_Lexorder"
    "HOL-Library.Monad_Syntax"
begin

section \<open>Data model (lib/db: the interfaces and the tables they mirror)\<close>

text \<open>
  Values of the \<^verbatim>\<open>TIMESTAMP\<close> and \<^verbatim>\<open>DATE\<close> columns are instants and day numbers. A
  JavaScript \<^verbatim>\<open>number\<close> that arrives as JSON is a rational.
\<close>

type_synonym timestamp = int
type_synonym date = int
type_synonym number = rat

text \<open>A row of table \<^verbatim>\<open>users\<close> (interface \<^verbatim>\<open>User\<close>).\<close>

record user =
  usr_id :: int
  email :: string
  usr_name :: string
  usr_created_at :: timestamp

text \<open>
  \<^verbatim>\<open>Omit<Task, "id" | "created_at" | "updated_at">\<close>: what the caller hands to
  \<^verbatim>\<open>createTask\<close>, with the types of the interface: \<^verbatim>\<open>priority\<close> a number, the deadlines
  strings. A field marked \<^verbatim>\<open>?\<close> is an option, \<open>None\<close> being \<^verbatim>\<open>undefined\<close>.
\<close>

record task_data =
  td_user_id :: int
  td_title :: string
  td_description :: "string option"
  td_priority :: number
  td_status :: string
  td_deadline :: "string option"
  td_ai_suggested_priority :: "number option"
  td_ai_suggested_deadline :: "string option"
  td_context_tags :: "string list option"
  td_completed_at :: "string option"

text \<open>
  A row of table \<^verbatim>\<open>tasks\<close>, with the types of the columns; \<open>None\<close> is SQL \<^verbatim>\<open>NULL\<close>.
  \<^verbatim>\<open>status\<close> is a \<^verbatim>\<open>VARCHAR\<close> column, so it is a string here.
\<close>

record task =
  user_id :: int
  title :: string
  description :: "string option"
  priority :: int
  status :: string
  deadline :: "timestamp option"
  ai_suggested_priority :: "int option"
  ai_suggested_deadline :: "timestamp option"
  context_tags :: "string list option"
  completed_at :: "timestamp option"
  task_id :: int
  created_at :: timestamp
  updated_at :: timestamp

text \<open>A row of table \<^verbatim>\<open>context_entries\<close> (interface \<^verbatim>\<open>ContextEntry\<close>).\<close>

record context_entry =
  ce_id :: int
  ce_user_id :: int
  content :: string
  entry_type :: string
  entry_date :: date
  ce_created_at :: timestamp

text \<open>
  The database behind the module-level \<^verbatim>\<open>sql\<close> client: the rows of the three tables in
  insertion order, the next value of the \<^verbatim>\<open>SERIAL\<close> sequence of \<^verbatim>\<open>tasks.id\<close>, and the
  database's reader of timestamp texts, which gives the instant a text denotes or
  nothing when the text is no timestamp. The reader is a parameter of the model.
\<close>

record db =
  users :: "user list"
  tasks :: "task list"
  context_entries :: "context_entry list"
  tasks_id_seq :: int
  timestamp_in :: "string \<Rightarrow> timestamp option"

text \<open>
  What a thrown exception carries as far as the handlers care: the AI gateway failed
  (transport or schema validation), or the database rejected a statement.
\<close>

datatype error = AIServiceError | StoreError

section \<open>JavaScript helpers\<close>

text \<open>\<^verbatim>\<open>Array.prototype.join\<close>.\<close>

fun join :: "string \<Rightarrow> string list \<Rightarrow> string" where
  "join sep [] = []"
| "join sep [x] = x"
| "join sep (x # y # ys) = x @ sep @ join sep (y # ys)"

text \<open>\<^verbatim>\<open>v || null\<close> on an optional string: \<^verbatim>\<open>undefined\<close> and \<^verbatim>\<open>""\<close> are falsy.\<close>

definition or_null_string :: "string option \<Rightarrow> string option" where
  "or_null_string v = (case v of None \<Rightarrow> None | Some s \<Rightarrow> if s = [] then None else Some s)"

text \<open>An optional string as a condition, as in \<^verbatim>\<open>if (suggestion.deadline)\<close>.\<close>

definition truthy_string :: "string option \<Rightarrow> bool" where
  "truthy_string v \<longleftrightarrow> (case v of None \<Rightarrow> False | Some s \<Rightarrow> s \<noteq> [])"

text \<open>\<^verbatim>\<open>v || null\<close> on an optional number: \<^verbatim>\<open>undefined\<close> and \<^verbatim>\<open>0\<close> are falsy.\<close>

definition or_null_number :: "number option \<Rightarrow> number option" where
  "or_null_number v = (case v of None \<Rightarrow> None | Some n \<Rightarrow> if n = 0 then None else Some n)"

section \<open>What the columns accept\<close>

text \<open>
  An \<^verbatim>\<open>INTEGER\<close> column takes a number that is whole and fits 32 bits, and rejects any
  other.
\<close>

definition integer_in :: "number \<Rightarrow> int option" where
  "integer_in x =
     (let n = \<lfloor>x\<rfloor>
      in if of_int n = x \<and> - 2147483648 \<le> n \<and> n \<le> 2147483647 then Some n else None)"

text \<open>
  A \<^verbatim>\<open>VARCHAR(n)\<close> column takes a string of at most \<open>n\<close> characters; a longer one is
  cut to \<open>n\<close> when all that is cut off is spaces, and rejected otherwise.
\<close>

definition varchar_in :: "nat \<Rightarrow> string \<Rightarrow> string option" where
  "varchar_in n s =
     (if length s \<le> n then Some s
      else if list_all (\<lambda>c. c = CHR '' '') (drop n s) then Some (take n s)
      else None)"

text \<open>A nullable column takes \<^verbatim>\<open>NULL\<close>, and any other value as its type does.\<close>

definition nullable :: "('a \<Rightarrow> 'b option) \<Rightarrow> 'a option \<Rightarrow> 'b option option" where
  "nullable read v = (case v of None \<Rightarrow> Some None | Some x \<Rightarrow> map_option Some (read x))"

section \<open>Data access layer (class Database)\<close>

subsection \<open>getTasks\<close>

text \<open>
  The \<^verbatim>\<open>ORDER BY\<close> list, one component per sort expression:
  \<^verbatim>\<open>CASE WHEN status = 'completed' THEN 1 ELSE 0 END\<close>, \<^verbatim>\<open>priority ASC\<close>,
  \<^verbatim>\<open>deadline ASC NULLS LAST\<close> and \<^verbatim>\<open>created_at DESC\<close>. Tuples are compared
  lexicographically.
\<close>

definition deadline_nulls_last :: "timestamp option \<Rightarrow> nat \<times> timestamp" where
  "deadline_nulls_last dl = (case dl of Some t \<Rightarrow> (0, t) | None \<Rightarrow> (1, 0))"

definition tasks_order_by :: "task \<Rightarrow> nat \<times> int \<times> (nat \<times> timestamp) \<times> timestamp" where
  "tasks_order_by t =
     ((if status t = ''completed'' then 1 else 0),
      priority t,
      deadline_nulls_last (deadline t),
      - created_at t)"

definition getTasks :: "int \<Rightarrow> db \<Rightarrow> task list" where
  "getTasks userId d = sort_key tasks_order_by (filter (\<lambda>t. user_id t = userId) (tasks d))"

subsection \<open>createTask\<close>

text \<open>
  The \<^verbatim>\<open>INSERT\<close> names nine columns and binds one value to each. \<^verbatim>\<open>id\<close> comes from the
  sequence, \<^verbatim>\<open>created_at\<close> and \<^verbatim>\<open>updated_at\<close> default to \<^verbatim>\<open>CURRENT_TIMESTAMP\<close> and
  \<^verbatim>\<open>completed_at\<close>, which the statement does not name, to \<^verbatim>\<open>NULL\<close>, whatever the
  argument holds there. An array is truthy even when empty, so \<^verbatim>\<open>context_tags || null\<close>
  only maps \<^verbatim>\<open>undefined\<close> to \<^verbatim>\<open>NULL\<close>.

  \<open>tasks_row\<close> is the row the database forms from the nine values, or nothing when a
  value is not one its column accepts: \<^verbatim>\<open>user_id\<close>, \<^verbatim>\<open>priority\<close> and
  \<^verbatim>\<open>ai_suggested_priority\<close> are \<^verbatim>\<open>INTEGER\<close>, \<^verbatim>\<open>title\<close> is \<^verbatim>\<open>VARCHAR(500)\<close>, \<^verbatim>\<open>status\<close> is
  \<^verbatim>\<open>VARCHAR(20)\<close>, the two deadlines are \<^verbatim>\<open>TIMESTAMP\<close>.
\<close>

definition tasks_row :: "task_data \<Rightarrow> timestamp \<Rightarrow> db \<Rightarrow> task option" where
  "tasks_row task now d =
     do {
       uid \<leftarrow> integer_in (of_int (td_user_id task));
       ttl \<leftarrow> varchar_in 500 (td_title task);
       prio \<leftarrow> integer_in (td_priority task);
       st \<leftarrow> varchar_in 20 (td_status task);
       dl \<leftarrow> nullable (timestamp_in d) (or_null_string (td_deadline task));
       ai_prio \<leftarrow> nullable integer_in (or_null_number (td_ai_suggested_priority task));
       ai_dl \<leftarrow> nullable (timestamp_in d) (or_null_string (td_ai_suggested_deadline task));
       Some \<lparr> user_id = uid,
              title = ttl,
              description = or_null_string (td_description task),
              priority = prio,
              status = st,
              deadline = dl,
              ai_suggested_priority = ai_prio,
              ai_suggested_deadline = ai_dl,
              context_tags = td_context_tags task,
              completed_at = None,
              task_id = tasks_id_seq d,
              created_at = now,
              updated_at = now \<rparr>
     }"

text \<open>
  \<^verbatim>\<open>user_id\<close> references \<^verbatim>\<open>users(id)\<close>: a row whose user is not in table \<^verbatim>\<open>users\<close> is
  rejected. A rejected statement raises, and the tables stay as they were. Otherwise
  \<^verbatim>\<open>RETURNING *\<close> gives back the one inserted row.
\<close>

definition createTask :: "task_data \<Rightarrow> timestamp \<Rightarrow> db \<Rightarrow> error + (task \<times> db)" where
  "createTask task now d =
     (case tasks_row task now d of
        None \<Rightarrow> Inl StoreError
      | Some row \<Rightarrow>
          if user_id row \<notin> usr_id ` set (users d) then Inl StoreError
          else Inr (row, d\<lparr> tasks := tasks d @ [row], tasks_id_seq := tasks_id_seq d + 1 \<rparr>))"

subsection \<open>updateTask\<close>

text \<open>
  \<^verbatim>\<open>Partial<Task>\<close>: every field of \<^verbatim>\<open>Task\<close>, each possibly \<^verbatim>\<open>undefined\<close>. The values never
  reach the database (see below), so the fields that hold instants are kept as instants.
\<close>

record task_updates =
  u_id :: "int option"
  u_user_id :: "int option"
  u_title :: "string option"
  u_description :: "string option"
  u_priority :: "int option"
  u_status :: "string option"
  u_deadline :: "timestamp option"
  u_ai_suggested_priority :: "int option"
  u_ai_suggested_deadline :: "timestamp option"
  u_context_tags :: "string list option"
  u_created_at :: "timestamp option"
  u_updated_at :: "timestamp option"
  u_completed_at :: "timestamp option"

definition no_updates :: task_updates where
  "no_updates = \<lparr> u_id = None, u_user_id = None, u_title = None, u_description = None,
     u_priority = None, u_status = None, u_deadline = None, u_ai_suggested_priority = None,
     u_ai_suggested_deadline = None, u_context_tags = None, u_created_at = None,
     u_updated_at = None, u_completed_at = None \<rparr>"

text \<open>
  \<^verbatim>\<open>Object.entries(updates).filter(([_, value]) => value !== undefined).map(([key, _]) => key)\<close>:
  the keys whose value is defined. A record has no insertion order, so the keys come in
  the order of the interface.
\<close>

definition key_if :: "string \<Rightarrow> 'a option \<Rightarrow> string list" where
  "key_if k v = (case v of None \<Rightarrow> [] | Some _ \<Rightarrow> [k])"

definition defined_keys :: "task_updates \<Rightarrow> string list" where
  "defined_keys u =
     key_if ''id'' (u_id u) @ key_if ''user_id'' (u_user_id u) @ key_if ''title'' (u_title u) @
     key_if ''description'' (u_description u) @ key_if ''priority'' (u_priority u) @
     key_if ''status'' (u_status u) @ key_if ''deadline'' (u_deadline u) @
     key_if ''ai_suggested_priority'' (u_ai_suggested_priority u) @
     key_if ''ai_suggested_deadline'' (u_ai_suggested_deadline u) @
     key_if ''context_tags'' (u_context_tags u) @ key_if ''created_at'' (u_created_at u) @
     key_if ''updated_at'' (u_updated_at u) @ key_if ''completed_at'' (u_completed_at u)"

text \<open>The text spliced into the statement: \<^verbatim>\<open>key = $key\<close> for each defined key, joined by commas.\<close>

definition setClause :: "task_updates \<Rightarrow> string" where
  "setClause u = join '', '' (map (\<lambda>key. key @ '' = $'' @ key) (defined_keys u))"

text \<open>
  \<^verbatim>\<open>sql.unsafe(setClause)\<close> splices that text as it is, and the only value bound is the
  id, so the statement sent is
  \<^verbatim>\<open>UPDATE tasks SET <setClause>, updated_at = CURRENT_TIMESTAMP WHERE id = $1 RETURNING *\<close>.
  The values of \<^verbatim>\<open>updates\<close> are never handed over. With a defined key the list holds
  \<^verbatim>\<open>key = $key\<close>, and \<^verbatim>\<open>$key\<close> is no placeholder of the database (those are \<^verbatim>\<open>$1\<close>, \<^verbatim>\<open>$2\<close>,
  ...); with no defined key the list starts with a comma (\<^verbatim>\<open>SET , updated_at = ...\<close>).
  Either text is rejected: the function raises for every argument, no row is rewritten
  and nothing is returned.
\<close>

definition updateTask ::
  "int \<Rightarrow> task_updates \<Rightarrow> timestamp \<Rightarrow> db \<Rightarrow> error + (task option \<times> db)" where
  "updateTask i updates now d =
     (if setClause updates = []
      then Inl StoreError \<comment> \<open>\<^verbatim>\<open>SET , updated_at = ...\<close>\<close>
      else Inl StoreError \<comment> \<open>\<^verbatim>\<open>SET key = $key, ...\<close> with nothing bound to \<^verbatim>\<open>$key\<close>\<close>)"

subsection \<open>deleteTask\<close>

text \<open>\<^verbatim>\<open>DELETE FROM tasks WHERE id = <id>\<close>: the rows with another id stay; nothing is returned.\<close>

definition deleteTask :: "int \<Rightarrow> db \<Rightarrow> db" where
  "deleteTask i d = d\<lparr> tasks := filter (\<lambda>t. task_id t \<noteq> i) (tasks d) \<rparr>"

subsection \<open>getContextEntries\<close>

text \<open>
  The template is \<^verbatim>\<open>... WHERE user_id = ${userId} AND entry_date >= CURRENT_DATE - INTERVAL
  '${days} days' ORDER BY entry_date DESC, created_at DESC\<close>, with \<^verbatim>\<open>days\<close> defaulting to 7.
  The client turns each interpolation into a numbered placeholder and binds two values,
  but the second placeholder lands inside a quoted literal, where it is three characters
  of the string \<^verbatim>\<open>'$2 days'\<close>: the statement has one placeholder and is sent two values.
  The database refuses it, whatever the user, the number of days and the stored
  entries: every call raises, and \<^verbatim>\<open>days\<close> is never the length of an interval.
\<close>

definition getContextEntries ::
  "int \<Rightarrow> int option \<Rightarrow> date \<Rightarrow> db \<Rightarrow> error + context_entry list" where
  "getContextEntries userId days_arg today d =
     (let days = (case days_arg of None \<Rightarrow> 7 | Some n \<Rightarrow> n)
      in Inl StoreError)"

section \<open>AI gateway (class AIService)\<close>

text \<open>
  The objects the three zod schemas describe: \<^verbatim>\<open>priority\<close> is \<^verbatim>\<open>z.number().min(1).max(3)\<close>,
  any number from 1 to 3; \<^verbatim>\<open>deadline\<close> is \<^verbatim>\<open>z.string().optional()\<close>, any string or none.
\<close>

record suggestion =
  s_priority :: number
  s_deadline :: "string option"
  s_reasoning :: string
  s_contextTags :: "string list"

record parsed_task =
  p_title :: string
  p_description :: string
  p_priority :: number
  p_deadline :: "string option"
  p_contextTags :: "string list"

record recommendation =
  r_title :: string
  r_description :: string
  r_priority :: number
  r_reasoning :: string
  r_contextTags :: "string list"

text \<open>
  \<^verbatim>\<open>generateObject\<close> is the external completion service. Its answer to a prompt is a
  parameter of the model: one reply function per prompt template, taking the values
  interpolated into the template and giving the object sent back, or \<open>None\<close> when the
  call fails. The gateway checks the object against the schema and throws when it does
  not conform; the only constraint of the schemas beyond the field types is the range
  of the priority.
\<close>

record ai_service =
  suggest_reply :: "string \<Rightarrow> string option \<Rightarrow> string \<Rightarrow> suggestion option"
  parse_reply :: "string \<Rightarrow> string \<Rightarrow> parsed_task option"
  recommend_reply :: "string \<Rightarrow> string \<Rightarrow> recommendation list option"

definition priority_in_schema :: "number \<Rightarrow> bool" where
  "priority_in_schema p \<longleftrightarrow> 1 \<le> p \<and> p \<le> 3"

text \<open>\<^verbatim>\<open>`${entry.entry_type}: ${entry.content}`\<close> and the newline the lines are joined with.\<close>

definition render_entry :: "context_entry \<Rightarrow> string" where
  "render_entry e = entry_type e @ '': '' @ content e"

definition newline :: string where
  "newline = [CHR 0x0A]"

text \<open>
  Each function threads the number of calls made to the external service so far: a
  call, failed or not, adds one.
\<close>

definition suggestTaskPriority ::
  "string \<Rightarrow> string option \<Rightarrow> context_entry list \<Rightarrow> ai_service \<Rightarrow> nat \<Rightarrow> (error + suggestion) \<times> nat" where
  "suggestTaskPriority ttl descr contextEntries ai calls =
     (let contextSummary = join newline (map render_entry (take 10 contextEntries))
      in case suggest_reply ai ttl descr contextSummary of
           None \<Rightarrow> (Inl AIServiceError, calls + 1)
         | Some obj \<Rightarrow>
             if priority_in_schema (s_priority obj) then (Inr obj, calls + 1)
             else (Inl AIServiceError, calls + 1))"

definition recommendTasks ::
  "context_entry list \<Rightarrow> task list \<Rightarrow> ai_service \<Rightarrow> nat \<Rightarrow> (error + recommendation list) \<times> nat" where
  "recommendTasks contextEntries existingTasks ai calls =
     (let contextSummary = join newline (map render_entry contextEntries)
      in if contextSummary = [] then (Inr [], calls)
         else
           let existingTaskTitles = join newline (map title existingTasks)
           in case recommend_reply ai contextSummary existingTaskTitles of
                None \<Rightarrow> (Inl AIServiceError, calls + 1)
              | Some recs \<Rightarrow>
                  if list_all (\<lambda>r. priority_in_schema (r_priority r)) recs then (Inr recs, calls + 1)
                  else (Inl AIServiceError, calls + 1))"

definition parseNaturalLanguageTask ::
  "string \<Rightarrow> context_entry list \<Rightarrow> ai_service \<Rightarrow> nat \<Rightarrow> (error + parsed_task) \<times> nat" where
  "parseNaturalLanguageTask input contextEntries ai calls =
     (let contextSummary = join newline (map render_entry (take 5 contextEntries))
      in case parse_reply ai input contextSummary of
           None \<Rightarrow> (Inl AIServiceError, calls + 1)
         | Some obj \<Rightarrow>
             if priority_in_schema (p_priority obj) then (Inr obj, calls + 1)
             else (Inl AIServiceError, calls + 1))"

section \<open>Route handlers (app/api/tasks)\<close>

text \<open>What a handler runs against: the store and the count of calls to the AI service.\<close>

record world =
  store :: db
  ai_calls :: nat

text \<open>
  The JSON body of \<^verbatim>\<open>POST /tasks\<close>. The handler destructures \<^verbatim>\<open>userId\<close>, \<^verbatim>\<open>title\<close>,
  \<^verbatim>\<open>description\<close>, \<^verbatim>\<open>useAI\<close> and \<^verbatim>\<open>naturalLanguage\<close>; \<^verbatim>\<open>priority\<close> (which the task form
  sends), \<^verbatim>\<open>status\<close> and \<^verbatim>\<open>completed_at\<close> stand for whatever else a caller puts there.
\<close>

record post_body =
  req_userId :: "int option"
  req_title :: "string option"
  req_description :: "string option"
  req_priority :: "int option"
  req_useAI :: "bool option"
  req_naturalLanguage :: "bool option"
  req_status :: "string option"
  req_completed_at :: "timestamp option"

text \<open>
  The JSON body of \<^verbatim>\<open>PUT /tasks/{id}\<close>, as far as the handler reads it. A field is
  missing (\<open>None\<close>) or holds a value; the handler checks neither the priority nor the
  status it is sent.
\<close>

record put_body =
  put_title :: "string option"
  put_description :: "string option"
  put_priority :: "int option"
  put_status :: "string option"
  put_deadline :: "timestamp option"

text \<open>\<^verbatim>\<open>NextResponse.json\<close>: \<^verbatim>\<open>{ task }\<close>, \<^verbatim>\<open>{ success: true }\<close>, or \<^verbatim>\<open>{ error }\<close> with a status.\<close>

datatype response = Json_task "task option" | Json_success | Json_error string nat

definition default_false :: "bool option \<Rightarrow> bool" where
  "default_false v = (case v of None \<Rightarrow> False | Some b \<Rightarrow> b)"

text \<open>\<^verbatim>\<open>description || ""\<close>.\<close>

definition or_empty :: "string option \<Rightarrow> string" where
  "or_empty v = (case v of None \<Rightarrow> [] | Some s \<Rightarrow> s)"

text \<open>
  The terminal action of every branch: \<^verbatim>\<open>createTask(taskData)\<close>, then \<^verbatim>\<open>{ task }\<close>; when
  the statement raises, the \<^verbatim>\<open>catch\<close> answers 500.
\<close>

definition create_and_respond :: "task_data \<Rightarrow> timestamp \<Rightarrow> world \<Rightarrow> response \<times> world" where
  "create_and_respond taskData now w =
     (case createTask taskData now (store w) of
        Inl e \<Rightarrow> (Json_error ''Failed to create task'' 500, w)
      | Inr (task, d') \<Rightarrow> (Json_task (Some task), w\<lparr> store := d' \<rparr>))"

text \<open>
  \<^verbatim>\<open>!userId || !title\<close> holds for a missing value, for \<^verbatim>\<open>0\<close> and for \<^verbatim>\<open>""\<close>. With
  \<^verbatim>\<open>useAI\<close> or \<^verbatim>\<open>naturalLanguage\<close> the handler first awaits \<^verbatim>\<open>getContextEntries\<close>, then
  the gateway; an exception of either lands in the \<^verbatim>\<open>catch\<close>, which answers 500. A call
  made to the gateway has still been made.
\<close>

definition POST :: "post_body \<Rightarrow> ai_service \<Rightarrow> timestamp \<Rightarrow> date \<Rightarrow> world \<Rightarrow> response \<times> world" where
  "POST body ai now today w =
     (case (req_userId body, req_title body) of
        (Some userId, Some ttl) \<Rightarrow>
          if userId = 0 \<or> ttl = [] then (Json_error ''User ID and title required'' 400, w)
          else
            let useAI = default_false (req_useAI body);
                naturalLanguage = default_false (req_naturalLanguage body);
                taskData = \<lparr> td_user_id = userId,
                             td_title = ttl,
                             td_description = Some (or_empty (req_description body)),
                             td_priority = 3,
                             td_status = ''pending'',
                             td_deadline = None,
                             td_ai_suggested_priority = None,
                             td_ai_suggested_deadline = None,
                             td_context_tags = Some [],
                             td_completed_at = None \<rparr>
            in if useAI \<or> naturalLanguage then
                 (case getContextEntries userId None today (store w) of
                    Inl e \<Rightarrow> (Json_error ''Failed to create task'' 500, w)
                  | Inr contextEntries \<Rightarrow>
                      if naturalLanguage then
                        (case parseNaturalLanguageTask ttl contextEntries ai (ai_calls w) of
                           (Inl e, n) \<Rightarrow>
                             (Json_error ''Failed to create task'' 500, w\<lparr> ai_calls := n \<rparr>)
                         | (Inr parsed, n) \<Rightarrow>
                             create_and_respond
                               (taskData\<lparr> td_title := p_title parsed,
                                          td_description := Some (p_description parsed),
                                          td_priority := p_priority parsed,
                                          td_deadline := p_deadline parsed,
                                          td_context_tags := Some (p_contextTags parsed) \<rparr>)
                               now (w\<lparr> ai_calls := n \<rparr>))
                      else
                        (case suggestTaskPriority ttl (req_description body) contextEntries ai
                                (ai_calls w) of
                           (Inl e, n) \<Rightarrow>
                             (Json_error ''Failed to create task'' 500, w\<lparr> ai_calls := n \<rparr>)
                         | (Inr suggestion, n) \<Rightarrow>
                             create_and_respond
                               (taskData\<lparr> td_ai_suggested_priority := Some (s_priority suggestion),
                                          td_ai_suggested_deadline := s_deadline suggestion,
                                          td_priority := s_priority suggestion,
                                          td_context_tags := Some (s_contextTags suggestion),
                                          td_deadline :=
                                            (if truthy_string (s_deadline suggestion)
                                             then s_deadline suggestion
                                             else td_deadline taskData) \<rparr>)
                               now (w\<lparr> ai_calls := n \<rparr>)))
               else create_and_respond taskData now w
      | _ \<Rightarrow> (Json_error ''User ID and title required'' 400, w))"

text \<open>
  \<^verbatim>\<open>PUT\<close> copies the fields the body defines, and adds \<^verbatim>\<open>completed_at\<close> with the request
  time exactly when the body's status is \<^verbatim>\<open>"completed"\<close>; then it awaits \<^verbatim>\<open>updateTask\<close>,
  and the \<^verbatim>\<open>catch\<close> answers 500 when that raises.
\<close>

definition put_updates :: "put_body \<Rightarrow> timestamp \<Rightarrow> task_updates" where
  "put_updates body now =
     no_updates\<lparr> u_title := put_title body,
                 u_description := put_description body,
                 u_priority := put_priority body,
                 u_status := put_status body,
                 u_completed_at := (if put_status body = Some ''completed'' then Some now else None),
                 u_deadline := put_deadline body \<rparr>"

definition PUT :: "int \<Rightarrow> put_body \<Rightarrow> timestamp \<Rightarrow> world \<Rightarrow> response \<times> world" where
  "PUT taskId body now w =
     (case updateTask taskId (put_updates body now) now (store w) of
        Inl e \<Rightarrow> (Json_error ''Failed to update task'' 500, w)
      | Inr (task, d') \<Rightarrow> (Json_task task, w\<lparr> store := d' \<rparr>))"

definition DELETE :: "int \<Rightarrow> world \<Rightarrow> response \<times> world" where
  "DELETE taskId w = (Json_success, w\<lparr> store := deleteTask taskId (store w) \<rparr>)"

section \<open>Requests in sequence\<close>

text \<open>
  The handlers are stateless; what one request leaves in the store is what the next one
  finds. A request carries the clock readings its handler takes.
\<close>

datatype request = Post post_body timestamp date | Put int put_body timestamp

fun serve :: "ai_service \<Rightarrow> request \<Rightarrow> world \<Rightarrow> world" where
  "serve ai (Post body now today) w = snd (POST body ai now today w)"
| "serve ai (Put taskId body now) w = snd (PUT taskId body now w)"

definition serve_all :: "ai_service \<Rightarrow> request list \<Rightarrow> world \<Rightarrow> world" where
  "serve_all ai reqs w = fold (serve ai) reqs w"

section \<open>Vocabulary of the specification\<close>

text \<open>
  The Task invariant in the specification's words: priority in \<open>{1,2,3}\<close>, status one of
  the three names, \<^verbatim>\<open>completed_at\<close> set if and only if the status is \<^verbatim>\<open>completed\<close>.
\<close>

definition spec_task_invariant :: "task \<Rightarrow> bool" where
  "spec_task_invariant t \<longleftrightarrow>
     priority t \<in> {1, 2, 3} \<and>
     status t \<in> {''pending'', ''in_progress'', ''completed''} \<and>
     (completed_at t \<noteq> None \<longleftrightarrow> status t = ''completed'')"

text \<open>
  The order of \<^verbatim>\<open>getTasks\<close> in the specification's words: \<open>a\<close> may be listed before \<open>b\<close>
  when \<open>a\<close> is not completed and \<open>b\<close> is; or both are in the same bucket and \<open>a\<close> has the
  smaller priority number; or the priorities agree and \<open>a\<close>'s deadline is earlier, a
  missing deadline being later than any deadline; or the deadlines agree too and \<open>a\<close>
  was not created before \<open>b\<close>.
\<close>

definition deadline_before :: "timestamp option \<Rightarrow> timestamp option \<Rightarrow> bool" where
  "deadline_before x y =
     (case x of None \<Rightarrow> False | Some a \<Rightarrow> (case y of None \<Rightarrow> True | Some b \<Rightarrow> a < b))"

definition spec_task_order :: "task \<Rightarrow> task \<Rightarrow> bool" where
  "spec_task_order a b \<longleftrightarrow>
     (status a \<noteq> ''completed'' \<and> status b = ''completed'') \<or>
     ((status a = ''completed'') = (status b = ''completed'') \<and>
      (priority a < priority b \<or>
       (priority a = priority b \<and>
        (deadline_before (deadline a) (deadline b) \<or>
         (deadline a = deadline b \<and> created_at b \<le> created_at a)))))"

section \<open>Sample data\<close>

text \<open>An AI service that never answers, and one that answers every prompt the same way.\<close>

definition silent_ai :: ai_service where
  "silent_ai = \<lparr> suggest_reply = (\<lambda>_ _ _. None), parse_reply = (\<lambda>_ _. None),
     recommend_reply = (\<lambda>_ _. None) \<rparr>"

definition friday_suggestion :: suggestion where
  "friday_suggestion = \<lparr> s_priority = 1, s_deadline = Some ''2024-01-05T00:00:00Z'',
     s_reasoning = ''The client expects it on Friday'', s_contextTags = [''work''] \<rparr>"

definition slides_parse :: parsed_task where
  "slides_parse = \<lparr> p_title = ''Prepare review slides'', p_description = ''Slides for the Friday review'',
     p_priority = 1, p_deadline = Some ''2024-01-05T00:00:00Z'', p_contextTags = [''work''] \<rparr>"

definition advising_ai :: ai_service where
  "advising_ai = \<lparr> suggest_reply = (\<lambda>_ _ _. Some friday_suggestion),
     parse_reply = (\<lambda>_ _. Some slides_parse), recommend_reply = (\<lambda>_ _. None) \<rparr>"

text \<open>The user of the seed script, and a reader that knows one timestamp text.\<close>

definition demo_user :: user where
  "demo_user = \<lparr> usr_id = 1, email = ''demo@example.com'', usr_name = ''Demo User'',
     usr_created_at = 0 \<rparr>"

definition friday_reader :: "string \<Rightarrow> timestamp option" where
  "friday_reader s = (if s = ''2024-01-05T00:00:00Z'' then Some 5000 else None)"

definition fresh_world :: world where
  "fresh_world = \<lparr> store = \<lparr> users = [demo_user], tasks = [], context_entries = [],
     tasks_id_seq = 1, timestamp_in = friday_reader \<rparr>, ai_calls = 0 \<rparr>"

text \<open>The task form with both switches off and \<^verbatim>\<open>High Priority\<close> selected.\<close>

definition plain_request :: post_body where
  "plain_request = \<lparr> req_userId = Some 1, req_title = Some ''Pay rent'',
     req_description = Some ''before Friday'', req_priority = Some 1, req_useAI = Some False,
     req_naturalLanguage = Some False, req_status = None, req_completed_at = None \<rparr>"

definition rent_task :: task where
  "rent_task = \<lparr> user_id = 1, title = ''Pay rent'', description = Some ''before Friday'',
     priority = 3, status = ''pending'', deadline = None, ai_suggested_priority = None,
     ai_suggested_deadline = None, context_tags = Some [], completed_at = None, task_id = 1,
     created_at = 1000, updated_at = 1000 \<rparr>"

definition rent_world :: world where
  "rent_world = \<lparr> store = \<lparr> users = [demo_user], tasks = [rent_task], context_entries = [],
     tasks_id_seq = 2, timestamp_in = friday_reader \<rparr>, ai_calls = 0 \<rparr>"

text \<open>The same form with a status and a completion time added to the body.\<close>

definition completed_request :: post_body where
  "completed_request = plain_request\<lparr> req_status := Some ''completed'', req_completed_at := Some 999 \<rparr>"

text \<open>The same form with \<^verbatim>\<open>AI Suggestions\<close> on.\<close>

definition ai_request :: post_body where
  "ai_request = plain_request\<lparr> req_priority := Some 3, req_useAI := Some True \<rparr>"

definition empty_put :: put_body where
  "empty_put = \<lparr> put_title = None, put_description = None, put_priority = None,
     put_status = None, put_deadline = None \<rparr>"

text \<open>What the task form and then the checkbox of the task list send: create, check, uncheck.\<close>

definition toggle_requests :: "request list" where
  "toggle_requests =
     [Post plain_request 1000 20,
      Put 1 (empty_put\<lparr> put_status := Some ''completed'' \<rparr>) 2000,
      Put 1 (empty_put\<lparr> put_status := Some ''pending'' \<rparr>) 3000]"

text \<open>A board of five tasks, four of them of user 1.\<close>

definition board_task :: "int \<Rightarrow> int \<Rightarrow> string \<Rightarrow> int \<Rightarrow> timestamp option \<Rightarrow> timestamp \<Rightarrow> task" where
  "board_task i u st p dl cr = \<lparr> user_id = u, title = ''task'', description = None, priority = p,
     status = st, deadline = dl, ai_suggested_priority = None, ai_suggested_deadline = None,
     context_tags = None, completed_at = (if st = ''completed'' then Some cr else None),
     task_id = i, created_at = cr, updated_at = cr \<rparr>"

definition board :: db where
  "board = \<lparr> users = [demo_user],
              tasks = [board_task 1 1 ''pending'' 2 None 10,
                       board_task 2 1 ''completed'' 1 (Some 50) 20,
                       board_task 3 1 ''in_progress'' 2 (Some 70) 30,
                       board_task 4 2 ''pending'' 1 None 35,
                       board_task 5 1 ''pending'' 2 (Some 70) 40],
              context_entries = [], tasks_id_seq = 6, timestamp_in = friday_reader \<rparr>"

text \<open>
  A journal read on day 100: entries of today, of three days ago and of ten days ago.
\<close>

definition journal_entry :: "int \<Rightarrow> date \<Rightarrow> context_entry" where
  "journal_entry i dt = \<lparr> ce_id = i, ce_user_id = 1, content = ''call the client'',
     entry_type = ''note'', entry_date = dt, ce_created_at = 10 * dt \<rparr>"

definition journal :: db where
  "journal = \<lparr> users = [demo_user], tasks = [],
                context_entries = [journal_entry 1 90, journal_entry 2 97, journal_entry 3 100],
                tasks_id_seq = 1, timestamp_in = friday_reader \<rparr>"

section \<open>Helper lemmas\<close>

subsection \<open>Strings built for the prompts and the statements\<close>

lemma join_eq_Nil: "sep \<noteq> [] \<Longrightarrow> join sep xs = [] \<longleftrightarrow> xs = [] \<or> xs = [[]]"
  by (induction sep xs rule: join.induct) auto

lemma setClause_eq_Nil: "setClause u = [] \<longleftrightarrow> defined_keys u = []"
proof -
  have "map (\<lambda>key. key @ '' = $'' @ key) ks \<noteq> [[]]" for ks :: "string list"
    by (cases ks) auto
  then show ?thesis
    by (simp add: setClause_def join_eq_Nil)
qed

text \<open>The two kinds of text \<^verbatim>\<open>updateTask\<close> splices: nothing, and items with \<^verbatim>\<open>$key\<close>.\<close>

lemma setClause_examples:
  "setClause no_updates = []"
  "setClause (no_updates\<lparr> u_title := Some s \<rparr>) = ''title = $title''"
  "setClause (no_updates\<lparr> u_status := Some st, u_completed_at := Some c \<rparr>) =
     ''status = $status, completed_at = $completed_at''"
  by (simp_all add: setClause_def defined_keys_def no_updates_def key_if_def)

lemma context_summary_eq_Nil:
  "join newline (map render_entry es) = [] \<longleftrightarrow> es = []"
proof -
  have "map render_entry es \<noteq> [[]]"
    by (cases es) (auto simp: render_entry_def)
  then show ?thesis
    by (simp add: join_eq_Nil newline_def)
qed

text \<open>With a context entry at hand, \<^verbatim>\<open>recommendTasks\<close> does call the service.\<close>

lemma recommendTasks_calls_service:
  "contextEntries \<noteq> [] \<Longrightarrow>
   snd (recommendTasks contextEntries existingTasks ai calls) = calls + 1"
  by (simp add: recommendTasks_def Let_def context_summary_eq_Nil split: option.splits)

subsection \<open>Sorting by an ORDER BY key\<close>

lemma sorted_wrt_sort_key:
  assumes "\<And>a b. f a \<le> f b \<Longrightarrow> R a b"
  shows "sorted_wrt R (sort_key f xs)"
proof -
  have "sorted (map f (sort_key f xs))" by (rule sorted_sort_key)
  then have "sorted_wrt (\<lambda>a b. f a \<le> f b) (sort_key f xs)"
    by (simp add: sorted_map)
  then show ?thesis
    by (rule sorted_wrt_mono_rel [rotated]) (simp add: assms)
qed

lemma tasks_order_by_le:
  "tasks_order_by a \<le> tasks_order_by b \<Longrightarrow> spec_task_order a b"
  by (auto simp: tasks_order_by_def spec_task_order_def deadline_nulls_last_def deadline_before_def
      less_eq_prod_def split: option.splits if_splits)

subsection \<open>Statements the database refuses\<close>

lemma updateTask_raises: "updateTask i updates now d = Inl StoreError"
  by (simp add: updateTask_def)

lemma PUT_raises: "PUT taskId body now w = (Json_error ''Failed to update task'' 500, w)"
  by (simp add: PUT_def updateTask_raises)

lemma getContextEntries_raises: "getContextEntries userId days_arg today d = Inl StoreError"
  by (simp add: getContextEntries_def)

text \<open>
  So a request with \<^verbatim>\<open>useAI\<close> or \<^verbatim>\<open>naturalLanguage\<close> set never gets as far as the gateway
  or the \<^verbatim>\<open>INSERT\<close>.
\<close>

lemma POST_with_context_raises:
  assumes "req_userId body = Some userId" and "userId \<noteq> 0"
    and "req_title body = Some ttl" and "ttl \<noteq> []"
    and "default_false (req_useAI body) \<or> default_false (req_naturalLanguage body)"
  shows "POST body ai now today w = (Json_error ''Failed to create task'' 500, w)"
  using assms by (auto simp: POST_def Let_def getContextEntries_raises)

subsection \<open>Rows written by createTask\<close>

lemma integer_in_Some: "integer_in x = Some n \<Longrightarrow> x = of_int n"
  by (auto simp: integer_in_def Let_def split: if_splits)

lemma integer_in_schema:
  assumes "priority_in_schema p" and "integer_in p = Some n"
  shows "n \<in> {1, 2, 3}"
proof -
  from assms(2) have "p = of_int n" by (rule integer_in_Some)
  with assms(1) have "1 \<le> n \<and> n \<le> 3"
    by (simp add: priority_in_schema_def)
  then show ?thesis by auto
qed

lemma varchar_in_short: "length s \<le> n \<Longrightarrow> varchar_in n s = Some s"
  by (simp add: varchar_in_def)

lemma createTask_row:
  assumes "createTask td now d = Inr (t, d')"
  shows "integer_in (td_priority td) = Some (priority t)"
    and "varchar_in 20 (td_status td) = Some (status t)"
    and "varchar_in 500 (td_title td) = Some (title t)"
    and "description t = or_null_string (td_description td)"
    and "completed_at t = None"
    and "user_id t = td_user_id td"
    and "user_id t \<in> usr_id ` set (users d)"
    and "task_id t = tasks_id_seq d" and "created_at t = now" and "updated_at t = now"
    and "tasks d' = tasks d @ [t]"
    and "users d' = users d" and "context_entries d' = context_entries d"
  using assms
  by (auto simp: createTask_def tasks_row_def bind_eq_Some_conv dest: integer_in_Some
      split: option.splits if_splits)

text \<open>What the \<^verbatim>\<open>INSERT\<close> is refused for: an unknown user, a title too long, a priority
  that is no whole number, a deadline the database cannot read.\<close>

lemma createTask_refusals:
  "td_user_id td \<notin> usr_id ` set (users d) \<Longrightarrow> createTask td now d = Inl StoreError"
  "varchar_in 500 (td_title td) = None \<Longrightarrow> createTask td now d = Inl StoreError"
  "integer_in (td_priority td) = None \<Longrightarrow> createTask td now d = Inl StoreError"
  "td_deadline td = Some s \<Longrightarrow> s \<noteq> [] \<Longrightarrow> timestamp_in d s = None \<Longrightarrow>
     createTask td now d = Inl StoreError"
  by (auto simp: createTask_def tasks_row_def bind_eq_None_conv bind_eq_Some_conv nullable_def
      or_null_string_def dest: integer_in_Some split: option.splits)

lemma column_examples:
  "integer_in 3 = Some 3" "integer_in (5 / 2) = None" "integer_in 4294967296 = None"
  "varchar_in 20 ''pending'' = Some ''pending''"
  "varchar_in 3 ''abcd'' = None" "varchar_in 3 ''abc  '' = Some ''abc''"
  by code_simp+

lemma create_and_respond_outcome:
  assumes "create_and_respond td now w0 = (r, w')"
  shows "(r = Json_error ''Failed to create task'' 500 \<and> w' = w0) \<or>
         (\<exists>t. r = Json_task (Some t) \<and> tasks (store w') = tasks (store w0) @ [t] \<and>
            completed_at t = None \<and>
            integer_in (td_priority td) = Some (priority t) \<and>
            varchar_in 20 (td_status td) = Some (status t))"
  using assms
  by (auto simp: create_and_respond_def createTask_row split: sum.splits)

subsection \<open>The invariant along requests\<close>

lemma suggest_valid:
  "suggestTaskPriority a b c ai k = (Inr sg, n) \<Longrightarrow> priority_in_schema (s_priority sg)"
  by (auto simp: suggestTaskPriority_def Let_def split: option.splits if_splits)

lemma parse_valid:
  "parseNaturalLanguageTask a c ai k = (Inr pt, n) \<Longrightarrow> priority_in_schema (p_priority pt)"
  by (auto simp: parseNaturalLanguageTask_def Let_def split: option.splits if_splits)

lemma pending_invariant:
  assumes "completed_at t = None" and "priority t \<in> {1, 2, 3}"
    and "varchar_in 20 ''pending'' = Some (status t)"
  shows "spec_task_invariant t \<and> status t = ''pending''"
  using assms by (auto simp: spec_task_invariant_def varchar_in_def)

text \<open>
  Whatever \<^verbatim>\<open>getContextEntries\<close> and the gateway answer, \<^verbatim>\<open>POST\<close> either reports an error
  and leaves the tasks as they were, or appends one task that satisfies the invariant.
\<close>

lemma POST_shape:
  assumes "POST body ai now today w = (r, w')"
  shows "(\<exists>msg code. r = Json_error msg code \<and> tasks (store w') = tasks (store w)) \<or>
         (\<exists>td w0. create_and_respond td now w0 = (r, w') \<and> tasks (store w0) = tasks (store w) \<and>
            td_status td = ''pending'' \<and>
            (td_priority td = 3 \<or> priority_in_schema (td_priority td)))"
proof -
  let ?err = "\<exists>msg code. r = Json_error msg code \<and> tasks (store w') = tasks (store w)"
  consider (refused) "req_userId body = None \<or> req_title body = None \<or>
      req_userId body = Some 0 \<or> req_title body = Some []"
    | (taken) userId ttl where "req_userId body = Some userId" "req_title body = Some ttl"
      "userId \<noteq> 0" "ttl \<noteq> []"
    by (cases "req_userId body"; cases "req_title body") auto
  then show ?thesis
  proof cases
    case refused
    with assms have ?err
      by (auto simp: POST_def split: option.splits)
    then show ?thesis ..
  next
    case taken
    define taskData where "taskData = \<lparr> td_user_id = userId, td_title = ttl,
      td_description = Some (or_empty (req_description body)), td_priority = 3,
      td_status = ''pending'', td_deadline = None, td_ai_suggested_priority = None,
      td_ai_suggested_deadline = None, td_context_tags = Some [], td_completed_at = None \<rparr>"
    have post: "POST body ai now today w =
      (if default_false (req_useAI body) \<or> default_false (req_naturalLanguage body) then
         (case getContextEntries userId None today (store w) of
            Inl e \<Rightarrow> (Json_error ''Failed to create task'' 500, w)
          | Inr contextEntries \<Rightarrow>
              if default_false (req_naturalLanguage body) then
                (case parseNaturalLanguageTask ttl contextEntries ai (ai_calls w) of
                   (Inl e, n) \<Rightarrow> (Json_error ''Failed to create task'' 500, w\<lparr> ai_calls := n \<rparr>)
                 | (Inr parsed, n) \<Rightarrow>
                     create_and_respond
                       (taskData\<lparr> td_title := p_title parsed,
                                  td_description := Some (p_description parsed),
                                  td_priority := p_priority parsed,
                                  td_deadline := p_deadline parsed,
                                  td_context_tags := Some (p_contextTags parsed) \<rparr>)
                       now (w\<lparr> ai_calls := n \<rparr>))
              else
                (case suggestTaskPriority ttl (req_description body) contextEntries ai (ai_calls w) of
                   (Inl e, n) \<Rightarrow> (Json_error ''Failed to create task'' 500, w\<lparr> ai_calls := n \<rparr>)
                 | (Inr suggestion, n) \<Rightarrow>
                     create_and_respond
                       (taskData\<lparr> td_ai_suggested_priority := Some (s_priority suggestion),
                                  td_ai_suggested_deadline := s_deadline suggestion,
                                  td_priority := s_priority suggestion,
                                  td_context_tags := Some (s_contextTags suggestion),
                                  td_deadline :=
                                    (if truthy_string (s_deadline suggestion)
                                     then s_deadline suggestion
                                     else td_deadline taskData) \<rparr>)
                       now (w\<lparr> ai_calls := n \<rparr>)))
       else create_and_respond taskData now w)"
      unfolding POST_def Let_def taskData_def using taken by simp
    have base: "td_status taskData = ''pending''" "td_priority taskData = 3"
      by (simp_all add: taskData_def)
    show ?thesis
    proof (cases "default_false (req_useAI body) \<or> default_false (req_naturalLanguage body)")
      case False
      with assms post have "create_and_respond taskData now w = (r, w')"
        by simp
      with base show ?thesis by blast
    next
      case with_context: True
      show ?thesis
      proof (cases "getContextEntries userId None today (store w)")
        case (Inl e)
        with assms post with_context have ?err
          by auto
        then show ?thesis ..
      next
        case entries: (Inr contextEntries)
        show ?thesis
        proof (cases "default_false (req_naturalLanguage body)")
          case nl: True
          obtain res n where call:
            "parseNaturalLanguageTask ttl contextEntries ai (ai_calls w) = (res, n)"
            by (cases "parseNaturalLanguageTask ttl contextEntries ai (ai_calls w)")
          show ?thesis
          proof (cases res)
            case (Inl e)
            with assms post entries nl call have ?err
              by auto
            then show ?thesis ..
          next
            case (Inr parsed)
            let ?td = "taskData\<lparr> td_title := p_title parsed,
                        td_description := Some (p_description parsed),
                        td_priority := p_priority parsed, td_deadline := p_deadline parsed,
                        td_context_tags := Some (p_contextTags parsed) \<rparr>"
            from assms post entries nl call Inr
            have "create_and_respond ?td now (w\<lparr> ai_calls := n \<rparr>) = (r, w')"
              by simp
            moreover have "td_status ?td = ''pending''"
              by (simp add: base)
            moreover from call Inr have "priority_in_schema (td_priority ?td)"
              by (auto dest: parse_valid)
            moreover have "tasks (store (w\<lparr> ai_calls := n \<rparr>)) = tasks (store w)"
              by simp
            ultimately show ?thesis by blast
          qed
        next
          case no_nl: False
          obtain res n where call:
            "suggestTaskPriority ttl (req_description body) contextEntries ai (ai_calls w) = (res, n)"
            by (cases "suggestTaskPriority ttl (req_description body) contextEntries ai (ai_calls w)")
          show ?thesis
          proof (cases res)
            case (Inl e)
            with assms post entries no_nl with_context call have ?err
              by auto
            then show ?thesis ..
          next
            case (Inr sg)
            let ?td = "taskData\<lparr> td_ai_suggested_priority := Some (s_priority sg),
                        td_ai_suggested_deadline := s_deadline sg,
                        td_priority := s_priority sg,
                        td_context_tags := Some (s_contextTags sg),
                        td_deadline := (if truthy_string (s_deadline sg)
                                        then s_deadline sg else td_deadline taskData) \<rparr>"
            from assms post entries no_nl with_context call Inr
            have "create_and_respond ?td now (w\<lparr> ai_calls := n \<rparr>) = (r, w')"
              by simp
            moreover have "td_status ?td = ''pending''"
              by (simp add: base)
            moreover from call Inr have "priority_in_schema (td_priority ?td)"
              by (auto dest: suggest_valid)
            moreover have "tasks (store (w\<lparr> ai_calls := n \<rparr>)) = tasks (store w)"
              by simp
            ultimately show ?thesis by blast
          qed
        qed
      qed
    qed
  qed
qed

lemma POST_outcome:
  assumes "POST body ai now today w = (r, w')"
  shows "(\<exists>msg code. r = Json_error msg code \<and> tasks (store w') = tasks (store w)) \<or>
         (\<exists>t. r = Json_task (Some t) \<and> tasks (store w') = tasks (store w) @ [t] \<and>
            spec_task_invariant t \<and> status t = ''pending'' \<and> completed_at t = None)"
  using POST_shape [OF assms]
proof
  assume "\<exists>msg code. r = Json_error msg code \<and> tasks (store w') = tasks (store w)"
  then show ?thesis by blast
next
  assume "\<exists>td w0. create_and_respond td now w0 = (r, w') \<and> tasks (store w0) = tasks (store w) \<and>
            td_status td = ''pending'' \<and>
            (td_priority td = 3 \<or> priority_in_schema (td_priority td))"
  then obtain td w0 where c: "create_and_respond td now w0 = (r, w')"
    and w0: "tasks (store w0) = tasks (store w)"
    and s: "td_status td = ''pending''"
    and p: "td_priority td = 3 \<or> priority_in_schema (td_priority td)"
    by blast
  have three: "integer_in 3 = Some 3"
    by (simp add: integer_in_def)
  from create_and_respond_outcome [OF c] show ?thesis
  proof
    assume "r = Json_error ''Failed to create task'' 500 \<and> w' = w0"
    with w0 show ?thesis by simp
  next
    assume "\<exists>t. r = Json_task (Some t) \<and> tasks (store w') = tasks (store w0) @ [t] \<and>
          completed_at t = None \<and>
          integer_in (td_priority td) = Some (priority t) \<and>
          varchar_in 20 (td_status td) = Some (status t)"
    then obtain t where t: "r = Json_task (Some t)" "tasks (store w') = tasks (store w0) @ [t]"
      "completed_at t = None" "integer_in (td_priority td) = Some (priority t)"
      "varchar_in 20 (td_status td) = Some (status t)"
      by blast
    have "priority t \<in> {1, 2, 3}"
    proof (cases "td_priority td = 3")
      case True
      with t(4) three show ?thesis by simp
    next
      case False
      with p have "priority_in_schema (td_priority td)" by simp
      then show ?thesis using t(4) by (rule integer_in_schema)
    qed
    moreover from t(5) s have "varchar_in 20 ''pending'' = Some (status t)"
      by simp
    ultimately have "spec_task_invariant t \<and> status t = ''pending''"
      using t(3) by (intro pending_invariant)
    with t w0 show ?thesis by simp
  qed
qed

lemma POST_kept:
  assumes "list_all spec_task_invariant (tasks (store w))"
  shows "list_all spec_task_invariant (tasks (store (snd (POST body ai now today w))))"
proof -
  obtain r w' where p: "POST body ai now today w = (r, w')"
    by (cases "POST body ai now today w")
  from POST_outcome [OF p] assms show ?thesis
    by (auto simp: p)
qed

lemma serve_kept:
  "list_all spec_task_invariant (tasks (store w)) \<Longrightarrow>
   list_all spec_task_invariant (tasks (store (serve ai req w)))"
  by (cases req) (simp_all add: POST_kept PUT_raises)

lemma serve_all_kept:
  "list_all spec_task_invariant (tasks (store w)) \<Longrightarrow>
   list_all spec_task_invariant (tasks (store (serve_all ai reqs w)))"
  unfolding serve_all_def
  by (induction reqs arbitrary: w) (simp_all add: serve_kept)

subsection \<open>The plain branch of POST\<close>

text \<open>
  With both switches off, a known user and a title the column takes, the task is
  stored with the title and description of the body, and with priority 3 whatever the
  body's \<^verbatim>\<open>priority\<close>.
\<close>

lemma POST_plain:
  assumes "req_userId body = Some userId" and "userId \<noteq> 0"
    and "req_title body = Some ttl" and "ttl \<noteq> []" and "length ttl \<le> 500"
    and "\<not> default_false (req_useAI body)" and "\<not> default_false (req_naturalLanguage body)"
    and "userId \<in> usr_id ` set (users (store w))"
    and "- 2147483648 \<le> userId" and "userId \<le> 2147483647"
  shows "POST body ai now today w =
           (let t = \<lparr> user_id = userId, title = ttl,
                      description = or_null_string (req_description body),
                      priority = 3, status = ''pending'', deadline = None,
                      ai_suggested_priority = None, ai_suggested_deadline = None,
                      context_tags = Some [], completed_at = None,
                      task_id = tasks_id_seq (store w), created_at = now, updated_at = now \<rparr>
            in (Json_task (Some t),
                w\<lparr> store := (store w)\<lparr> tasks := tasks (store w) @ [t],
                                      tasks_id_seq := tasks_id_seq (store w) + 1 \<rparr> \<rparr>))"
  using assms
  by (simp add: POST_def Let_def create_and_respond_def createTask_def tasks_row_def
      integer_in_def varchar_in_def nullable_def or_null_string_def or_null_number_def
      or_empty_def split: option.splits)

section \<open>Creating a task\<close>

text \<open>
  C1. With \<^verbatim>\<open>useAI\<close> and \<^verbatim>\<open>naturalLanguage\<close> both false, the claim has \<^verbatim>\<open>POST /tasks\<close>
  persist the caller-supplied title, description and priority, the priority falling
  back to 3 only when the caller omits it. The handler never reads \<^verbatim>\<open>priority\<close> from
  the body: the request of the task form with priority 1 selected is stored, and
  returned, with priority 3. Title and description are stored as sent, there is no
  deadline and no AI field.
\<close>

theorem POST_plain_drops_priority:
  "req_priority plain_request = Some 1 \<and>
   POST plain_request silent_ai 1000 20 fresh_world = (Json_task (Some rent_task), rent_world) \<and>
   priority rent_task = 3"
  by (simp add: POST_def plain_request_def fresh_world_def rent_world_def rent_task_def demo_user_def
      default_false_def or_empty_def create_and_respond_def createTask_def tasks_row_def
      integer_in_def varchar_in_def nullable_def or_null_string_def or_null_number_def)

text \<open>
  C10. Whatever the body holds, a task that \<^verbatim>\<open>POST /tasks\<close> creates, in any of the three
  branches, is stored with status \<^verbatim>\<open>pending\<close> and no \<^verbatim>\<open>completed_at\<close>; a \<^verbatim>\<open>status\<close> or
  \<^verbatim>\<open>completed_at\<close> in the body changes neither the response nor the store.
\<close>

theorem POST_creates_pending:
  assumes "POST body ai now today w = (Json_task (Some t), w')"
  shows "status t = ''pending'' \<and> completed_at t = None \<and> t \<in> set (tasks (store w')) \<and>
         POST (body\<lparr> req_status := s, req_completed_at := c \<rparr>) ai now today w =
           (Json_task (Some t), w')"
proof -
  have same: "POST (body\<lparr> req_status := s, req_completed_at := c \<rparr>) ai now today w =
              POST body ai now today w"
    by (simp add: POST_def Let_def cong: option.case_cong sum.case_cong if_cong)
  from POST_outcome [OF assms]
  have "status t = ''pending'' \<and> completed_at t = None \<and> t \<in> set (tasks (store w'))"
    by auto
  with same assms show ?thesis by simp
qed

theorem POST_creates_pending_witness:
  "req_status completed_request = Some ''completed'' \<and>
   req_completed_at completed_request = Some 999 \<and>
   POST completed_request silent_ai 1000 20 fresh_world = (Json_task (Some rent_task), rent_world) \<and>
   status rent_task = ''pending'' \<and> completed_at rent_task = None \<and>
   POST (completed_request\<lparr> req_status := Some ''in_progress'', req_completed_at := None \<rparr>)
        silent_ai 1000 20 fresh_world = (Json_task (Some rent_task), rent_world)"
proof -
  have run: "POST completed_request silent_ai 1000 20 fresh_world =
               (Json_task (Some rent_task), rent_world)"
    by (simp add: POST_def completed_request_def plain_request_def fresh_world_def rent_world_def
        rent_task_def demo_user_def default_false_def or_empty_def create_and_respond_def
        createTask_def tasks_row_def integer_in_def varchar_in_def nullable_def
        or_null_string_def or_null_number_def)
  have "req_status completed_request = Some ''completed''"
    and "req_completed_at completed_request = Some 999"
    by (simp_all add: completed_request_def)
  with run POST_creates_pending [OF run, where s = "Some ''in_progress''" and c = None]
  show ?thesis by simp
qed

text \<open>
  C6. The claim has a request with \<^verbatim>\<open>useAI\<close> true and \<^verbatim>\<open>naturalLanguage\<close> false end in a
  stored task that carries the gateway's suggestion. The handler awaits
  \<^verbatim>\<open>getContextEntries\<close> before it turns to the gateway, and that call raises: the request
  of the task form with \<^verbatim>\<open>AI Suggestions\<close> on is answered with 500, no task is stored and
  the gateway, which has a suggestion ready, is not called.
\<close>

theorem POST_useAI_stores_nothing:
  "req_useAI ai_request = Some True \<and>
   suggest_reply advising_ai ''Pay rent'' (Some ''before Friday'') [] = Some friday_suggestion \<and>
   POST ai_request advising_ai 1000 20 fresh_world =
     (Json_error ''Failed to create task'' 500, fresh_world) \<and>
   tasks (store fresh_world) = [] \<and> ai_calls fresh_world = 0"
  by (simp add: POST_def ai_request_def plain_request_def default_false_def getContextEntries_def
      advising_ai_def fresh_world_def)

section \<open>The Task invariant\<close>

text \<open>
  C2. Every task that \<^verbatim>\<open>POST /tasks\<close> creates satisfies the Task invariant, and along
  every sequence of \<^verbatim>\<open>POST /tasks\<close> and \<^verbatim>\<open>PUT /tasks/{id}\<close> requests, from a store whose
  tasks satisfy the invariant, every stored task satisfies it.
\<close>

theorem invariant_preserved_by_requests:
  "(POST body ai now today w = (Json_task (Some t), w') \<longrightarrow> spec_task_invariant t) \<and>
   (list_all spec_task_invariant (tasks (store w)) \<longrightarrow>
      list_all spec_task_invariant (tasks (store (serve_all ai reqs w))))"
  using POST_outcome [of body ai now today w "Json_task (Some t)" w'] serve_all_kept [of w ai reqs]
  by auto

theorem invariant_preserved_by_requests_witness:
  "POST plain_request silent_ai 1000 20 fresh_world = (Json_task (Some rent_task), rent_world) \<and>
   spec_task_invariant rent_task \<and>
   list_all spec_task_invariant (tasks (store fresh_world)) \<and>
   tasks (store (serve_all silent_ai toggle_requests fresh_world)) = [rent_task] \<and>
   list_all spec_task_invariant (tasks (store (serve_all silent_ai toggle_requests fresh_world)))"
proof -
  have run: "POST plain_request silent_ai 1000 20 fresh_world = (Json_task (Some rent_task), rent_world)"
    by (simp add: POST_def plain_request_def fresh_world_def rent_world_def rent_task_def
        demo_user_def default_false_def or_empty_def create_and_respond_def createTask_def
        tasks_row_def integer_in_def varchar_in_def nullable_def or_null_string_def
        or_null_number_def)
  have start: "list_all spec_task_invariant (tasks (store fresh_world))"
    by (simp add: fresh_world_def)
  have "serve_all silent_ai toggle_requests fresh_world = rent_world"
    by (simp add: serve_all_def toggle_requests_def run PUT_raises)
  then have after: "tasks (store (serve_all silent_ai toggle_requests fresh_world)) = [rent_task]"
    by (simp add: rent_world_def)
  from invariant_preserved_by_requests [of plain_request silent_ai 1000 20 fresh_world rent_task
      rent_world toggle_requests] run start after
  show ?thesis by simp
qed

section \<open>Reading tasks and context entries\<close>

text \<open>
  C3. \<^verbatim>\<open>getTasks(userId)\<close> returns the user's tasks, each as often as it is stored, in
  the order of the specification: not completed before completed, then ascending
  priority, then ascending deadline with missing deadlines last, then descending
  creation time. In particular no completed task is listed before one that is not
  completed, and between two tasks of the same bucket the priority does not decrease.
\<close>

theorem getTasks_ordered:
  "mset (getTasks userId d) = mset (filter (\<lambda>t. user_id t = userId) (tasks d)) \<and>
   sorted_wrt spec_task_order (getTasks userId d) \<and>
   (\<forall>i j. i < j \<and> j < length (getTasks userId d) \<longrightarrow>
      \<not> (status (getTasks userId d ! i) = ''completed'' \<and>
         status (getTasks userId d ! j) \<noteq> ''completed'') \<and>
      ((status (getTasks userId d ! i) = ''completed'') =
       (status (getTasks userId d ! j) = ''completed'')
         \<longrightarrow> priority (getTasks userId d ! i) \<le> priority (getTasks userId d ! j)))"
proof -
  let ?r = "getTasks userId d"
  have perm: "mset ?r = mset (filter (\<lambda>t. user_id t = userId) (tasks d))"
    by (simp add: getTasks_def)
  have srt: "sorted_wrt spec_task_order ?r"
    unfolding getTasks_def by (rule sorted_wrt_sort_key) (rule tasks_order_by_le)
  have "spec_task_order (?r ! i) (?r ! j)" if "i < j" "j < length ?r" for i j
    using srt that by (simp add: sorted_wrt_iff_nth_less)
  then have "\<forall>i j. i < j \<and> j < length ?r \<longrightarrow>
      \<not> (status (?r ! i) = ''completed'' \<and> status (?r ! j) \<noteq> ''completed'') \<and>
      ((status (?r ! i) = ''completed'') = (status (?r ! j) = ''completed'')
         \<longrightarrow> priority (?r ! i) \<le> priority (?r ! j))"
    by (fastforce simp: spec_task_order_def)
  with perm srt show ?thesis by blast
qed

theorem getTasks_ordered_witness:
  "getTasks 1 board = [board_task 5 1 ''pending'' 2 (Some 70) 40,
                       board_task 3 1 ''in_progress'' 2 (Some 70) 30,
                       board_task 1 1 ''pending'' 2 None 10,
                       board_task 2 1 ''completed'' 1 (Some 50) 20] \<and>
   sorted_wrt spec_task_order (getTasks 1 board) \<and>
   status (getTasks 1 board ! 2) \<noteq> ''completed'' \<and> status (getTasks 1 board ! 3) = ''completed'' \<and>
   priority (getTasks 1 board ! 0) \<le> priority (getTasks 1 board ! 2)"
proof -
  have ev: "getTasks 1 board = [board_task 5 1 ''pending'' 2 (Some 70) 40,
                       board_task 3 1 ''in_progress'' 2 (Some 70) 30,
                       board_task 1 1 ''pending'' 2 None 10,
                       board_task 2 1 ''completed'' 1 (Some 50) 20]"
    by code_simp
  have "status (getTasks 1 board ! 2) \<noteq> ''completed'' \<and> status (getTasks 1 board ! 3) = ''completed''"
    by (simp add: ev board_task_def)
  moreover from getTasks_ordered [of 1 board]
  have "sorted_wrt spec_task_order (getTasks 1 board)"
    and "\<forall>i j. i < j \<and> j < length (getTasks 1 board) \<longrightarrow>
      ((status (getTasks 1 board ! i) = ''completed'') =
       (status (getTasks 1 board ! j) = ''completed'')
         \<longrightarrow> priority (getTasks 1 board ! i) \<le> priority (getTasks 1 board ! j))"
    by blast+
  moreover have "(0::nat) < 2 \<and> 2 < length (getTasks 1 board) \<and>
    (status (getTasks 1 board ! 0) = ''completed'') = (status (getTasks 1 board ! 2) = ''completed'')"
    by (simp add: ev board_task_def)
  ultimately show ?thesis using ev by blast
qed

text \<open>
  C8. The claim has \<^verbatim>\<open>getContextEntries(userId, windowDays)\<close> return the user's entries
  of the trailing window, newest first. The statement it sends is refused by the
  database, so the call raises instead: for the journal of the specification's scenario
  (entries of today, of three days ago and of ten days ago), with a window of 7 days as
  with the default window, nothing is returned.
\<close>

theorem getContextEntries_returns_nothing:
  "context_entries journal = [journal_entry 1 90, journal_entry 2 97, journal_entry 3 100] \<and>
   getContextEntries 1 (Some 7) 100 journal = Inl StoreError \<and>
   getContextEntries 1 None 100 journal = Inl StoreError"
  by (simp add: getContextEntries_def journal_def)

section \<open>Updating and deleting\<close>

text \<open>
  C4. The claim has \<^verbatim>\<open>updateTask\<close> refresh \<^verbatim>\<open>updated_at\<close> for every partial update. For
  the update that defines no field the text of the statement is
  \<^verbatim>\<open>UPDATE tasks SET , updated_at = CURRENT_TIMESTAMP ...\<close>, which the database rejects:
  nothing is written, and \<^verbatim>\<open>PUT\<close> with a body that defines none of the five fields
  answers 500.
\<close>

theorem updateTask_rejects_empty_update:
  "updateTask i no_updates now d = Inl StoreError \<and>
   PUT i \<lparr> put_title = None, put_description = None, put_priority = None, put_status = None,
           put_deadline = None \<rparr> now w = (Json_error ''Failed to update task'' 500, w)"
  by (simp add: PUT_def updateTask_def)


text \<open>
  C9. \<^verbatim>\<open>DELETE /tasks/{id}\<close> for an id that no stored task has answers
  \<^verbatim>\<open>{ success: true }\<close> and leaves the world as it was; so does a second call right after
  a first one, whatever the first one removed.
\<close>

theorem deleteTask_idempotent:
  "((\<forall>t\<in>set (tasks (store w)). task_id t \<noteq> i) \<longrightarrow> DELETE i w = (Json_success, w)) \<and>
   DELETE i (snd (DELETE i w)) = (Json_success, snd (DELETE i w))"
  by (simp add: DELETE_def deleteTask_def filter_id_conv)

theorem deleteTask_idempotent_witness:
  "task_id rent_task \<noteq> 7 \<and> DELETE 7 rent_world = (Json_success, rent_world) \<and>
   snd (DELETE 1 rent_world) = rent_world\<lparr> store := (store rent_world)\<lparr> tasks := [] \<rparr> \<rparr> \<and>
   DELETE 1 (snd (DELETE 1 rent_world)) = (Json_success, snd (DELETE 1 rent_world))"
proof -
  have "\<forall>t\<in>set (tasks (store rent_world)). task_id t \<noteq> 7"
    by (simp add: rent_world_def rent_task_def)
  moreover have "snd (DELETE 1 rent_world) = rent_world\<lparr> store := (store rent_world)\<lparr> tasks := [] \<rparr> \<rparr>"
    by (simp add: DELETE_def deleteTask_def rent_world_def rent_task_def)
  moreover have "task_id rent_task \<noteq> 7"
    by (simp add: rent_task_def)
  ultimately show ?thesis
    using deleteTask_idempotent [of rent_world 7] deleteTask_idempotent [of rent_world 1]
    by simp
qed

section \<open>Recommendations\<close>

text \<open>
  C7. With no context entries, \<^verbatim>\<open>recommendTasks\<close> returns the empty list whatever the
  existing tasks are, and the count of calls to the external service is what it was.
\<close>

theorem recommendTasks_short_circuit:
  "recommendTasks [] existingTasks ai calls = (Inr [], calls)"
  by (simp add: recommendTasks_def)

end
